theory Spec2Isabelle
  imports Main
begin

section \<open>The post controller of express-api\<close>

text \<open>
  The module \<^verbatim>\<open>src/controllers/postController.js\<close> keeps one module-level array
  \<^verbatim>\<open>posts\<close> and exports five Express handlers over it. Each handler is embedded as a
  function from the request and the array before the call to the outcome handed to
  Express together with the array after the call.

  Conventions of the embedding.
  \<^item> A JavaScript string is a \<^typ>\<open>string\<close> whose characters are code units below 256.
  \<^item> A request field that may be missing is a \<^typ>\<open>string option\<close>; \<open>None\<close> is
    \<^verbatim>\<open>undefined\<close>. The documented type of \<^verbatim>\<open>req.query.limit\<close>, \<^verbatim>\<open>req.params.id\<close> and
    \<^verbatim>\<open>req.body.title\<close> is string.
  \<^item> A JavaScript number that is an integer is an \<^typ>\<open>int\<close>; the only other number
    the handlers can meet is \<^verbatim>\<open>NaN\<close>, the result of a failed \<^verbatim>\<open>parseInt\<close>. Negative zero
    behaves as zero in every operation the handlers apply.
  \<^item> A JavaScript number is a double. Doubles are exact on the integers of magnitude
    below \<open>2 ^ 53\<close>, and there the model and the program hold and print the same
    number. From \<open>2 ^ 53\<close> on the program holds the nearest double (or \<^verbatim>\<open>Infinity\<close>) and
    prints its shortest form, while the model keeps the mathematical integer and all
    its digits. The id of an entry is a length plus one, far below \<open>2 ^ 53\<close>. No
    theorem below states the digits printed for a number of magnitude \<open>2 ^ 53\<close> or
    more.
\<close>

subsection \<open>Data\<close>

record post =
  post_id :: int
  title :: "string option"

record request =
  query_limit :: "string option"
  params_id :: "string option"
  body_title :: "string option"

datatype jsnum = NaN | Num int

record error =
  message :: string
  status :: nat

datatype body = PostList "post list" | OnePost post

datatype outcome = Json nat body | Next error

text \<open>The array literal the module starts with.\<close>

definition posts :: "post list" where
  "posts =
     [\<lparr>post_id = 1, title = Some ''Post 1''\<rparr>,
      \<lparr>post_id = 2, title = Some ''Post 2''\<rparr>,
      \<lparr>post_id = 3, title = Some ''Post 3''\<rparr>]"

subsection \<open>The JavaScript primitives the handlers call\<close>

text \<open>\<^verbatim>\<open>ToString\<close> on a value that is a string or \<^verbatim>\<open>undefined\<close>.\<close>

definition toString :: "string option \<Rightarrow> string" where
  "toString v = (case v of None \<Rightarrow> ''undefined'' | Some s \<Rightarrow> s)"

text \<open>
  \<^verbatim>\<open>parseInt(string)\<close> with no radix: leading white space is skipped, one sign is read,
  a prefix \<^verbatim>\<open>0x\<close> or \<^verbatim>\<open>0X\<close> selects radix 16, the longest run of digits of the radix
  is the value, whatever follows is ignored, and no digit at all gives \<^verbatim>\<open>NaN\<close>.
  The result is the integer the digits denote; JavaScript returns the double nearest
  to it, which is that integer when its magnitude is below \<open>2 ^ 53\<close>.
\<close>

definition isWhiteSpace :: "char \<Rightarrow> bool" where
  "isWhiteSpace c =
     (let n = (of_char c :: nat)
      in n = 9 \<or> n = 10 \<or> n = 11 \<or> n = 12 \<or> n = 13 \<or> n = 32 \<or> n = 160)"

definition digitValue :: "char \<Rightarrow> nat option" where
  "digitValue c =
     (let n = (of_char c :: nat)
      in if 48 \<le> n \<and> n \<le> 57 then Some (n - 48)
         else if 97 \<le> n \<and> n \<le> 122 then Some (n - 87)
         else if 65 \<le> n \<and> n \<le> 90 then Some (n - 55)
         else None)"

definition isRadixDigit :: "nat \<Rightarrow> char \<Rightarrow> bool" where
  "isRadixDigit R c = (case digitValue c of None \<Rightarrow> False | Some d \<Rightarrow> d < R)"

fun mathInt :: "nat \<Rightarrow> nat \<Rightarrow> string \<Rightarrow> nat" where
  "mathInt R acc [] = acc"
| "mathInt R acc (c # cs) =
     (case digitValue c of
        None \<Rightarrow> acc
      | Some d \<Rightarrow> mathInt R (acc * R + d) cs)"

definition parseInt :: "string option \<Rightarrow> jsnum" where
  "parseInt v =
     (let S = dropWhile isWhiteSpace (toString v);
          sign = (if S \<noteq> [] \<and> hd S = CHR ''-'' then - 1 else (1::int));
          S1 = (if S \<noteq> [] \<and> (hd S = CHR ''+'' \<or> hd S = CHR ''-'') then tl S else S);
          hex = (2 \<le> length S1 \<and> (take 2 S1 = ''0x'' \<or> take 2 S1 = ''0X''));
          R = (if hex then 16 else 10);
          S2 = (if hex then drop 2 S1 else S1);
          Z = takeWhile (isRadixDigit R) S2
      in if Z = [] then NaN else Num (sign * int (mathInt R 0 Z)))"

text \<open>\<^verbatim>\<open>isNaN(n)\<close> and \<^verbatim>\<open>n > 0\<close>; every comparison with \<^verbatim>\<open>NaN\<close> is false.\<close>

fun isNaN :: "jsnum \<Rightarrow> bool" where
  "isNaN NaN = True"
| "isNaN (Num n) = False"

fun greaterThanZero :: "jsnum \<Rightarrow> bool" where
  "greaterThanZero NaN = False"
| "greaterThanZero (Num n) = (0 < n)"

text \<open>\<^verbatim>\<open>post.id === id\<close>, where \<^verbatim>\<open>post.id\<close> is an integer.\<close>

fun strictEquals :: "int \<Rightarrow> jsnum \<Rightarrow> bool" where
  "strictEquals a NaN = False"
| "strictEquals a (Num b) = (a = b)"

text \<open>
  \<^verbatim>\<open>array.slice(0, end)\<close>: a negative end counts from the back, and the end is clamped
  to the length. The handlers call it with a number that is not \<^verbatim>\<open>NaN\<close>.
\<close>

fun slice0 :: "'a list \<Rightarrow> jsnum \<Rightarrow> 'a list" where
  "slice0 xs NaN = []"
| "slice0 xs (Num e) =
     (let len = int (length xs);
          final = (if e < 0 then max (len + e) 0 else min e len)
      in take (nat final) xs)"

text \<open>
  The decimal digits of an integer. A template literal prints a number of magnitude
  below \<open>2 ^ 53\<close> this way, and \<^verbatim>\<open>NaN\<close> as \<^verbatim>\<open>NaN\<close>.
\<close>

definition digitChar :: "nat \<Rightarrow> char" where
  "digitChar d = ''0123456789'' ! (d mod 10)"

fun showNat :: "nat \<Rightarrow> string" where
  "showNat n =
     (if n < 10 then [digitChar n]
      else showNat (n div 10) @ [digitChar (n mod 10)])"

declare showNat.simps [simp del]

fun numberToString :: "jsnum \<Rightarrow> string" where
  "numberToString NaN = ''NaN''"
| "numberToString (Num n) =
     (if n < 0 then CHR ''-'' # showNat (nat (- n)) else showNat (nat n))"

text \<open>\<^verbatim>\<open>!value\<close> on a value that is a string or \<^verbatim>\<open>undefined\<close>.\<close>

fun falsy :: "string option \<Rightarrow> bool" where
  "falsy None = True"
| "falsy (Some s) = (s = [])"

text \<open>\<^verbatim>\<open>posts.find((post) => post.id === id)\<close>: the first element that matches.\<close>

fun findPost :: "jsnum \<Rightarrow> post list \<Rightarrow> post option" where
  "findPost i [] = None"
| "findPost i (p # ps) = (if strictEquals (post_id p) i then Some p else findPost i ps)"

text \<open>
  \<^verbatim>\<open>post.title = value\<close> on the object that \<^verbatim>\<open>find\<close> returned. The array holds
  references and no object sits in two slots (each one comes from its own object
  literal), so the assignment changes the first matching slot and no other.
\<close>

fun assignTitle :: "jsnum \<Rightarrow> string option \<Rightarrow> post list \<Rightarrow> post list" where
  "assignTitle i t [] = []"
| "assignTitle i t (p # ps) =
     (if strictEquals (post_id p) i then p\<lparr>title := t\<rparr> # ps
      else p # assignTitle i t ps)"

text \<open>\<^verbatim>\<open>posts.filter((post) => post.id !== id)\<close>.\<close>

fun filterOut :: "jsnum \<Rightarrow> post list \<Rightarrow> post list" where
  "filterOut i [] = []"
| "filterOut i (p # ps) =
     (if \<not> strictEquals (post_id p) i then p # filterOut i ps else filterOut i ps)"

subsection \<open>The handlers\<close>

definition getPosts :: "request \<Rightarrow> post list \<Rightarrow> outcome \<times> post list" where
  "getPosts req ps =
     (let limit = parseInt (query_limit req)
      in if \<not> isNaN limit \<and> greaterThanZero limit
         then (Json 400 (PostList (slice0 ps limit)), ps)
         else (Json 200 (PostList ps), ps))"

definition getPost :: "request \<Rightarrow> post list \<Rightarrow> outcome \<times> post list" where
  "getPost req ps =
     (let i = parseInt (params_id req)
      in case findPost i ps of
           None \<Rightarrow>
             (Next \<lparr>message = ''A post with the id of '' @ numberToString i @ '' was not found'',
                    status = 404\<rparr>, ps)
         | Some p \<Rightarrow> (Json 200 (OnePost p), ps))"

definition createPost :: "request \<Rightarrow> post list \<Rightarrow> outcome \<times> post list" where
  "createPost req ps =
     (let newPost = \<lparr>post_id = int (length ps) + 1, title = body_title req\<rparr>
      in if falsy (title newPost)
         then (Next \<lparr>message = ''Please include a title'', status = 400\<rparr>, ps)
         else (Json 201 (PostList (ps @ [newPost])), ps @ [newPost]))"

definition updatePost :: "request \<Rightarrow> post list \<Rightarrow> outcome \<times> post list" where
  "updatePost req ps =
     (let i = parseInt (params_id req)
      in case findPost i ps of
           None \<Rightarrow>
             (Next \<lparr>message = ''Post with '' @ numberToString i @ '' is not found'',
                    status = 400\<rparr>, ps)
         | Some p \<Rightarrow>
             (Json 200 (OnePost (p\<lparr>title := body_title req\<rparr>)),
              assignTitle i (body_title req) ps))"

definition deletePost :: "request \<Rightarrow> post list \<Rightarrow> outcome \<times> post list" where
  "deletePost req ps =
     (let i = parseInt (params_id req)
      in case findPost i ps of
           None \<Rightarrow>
             (Next \<lparr>message = ''Post with '' @ numberToString i @ '' is not found'',
                    status = 400\<rparr>, ps)
         | Some p \<Rightarrow> (Json 200 (OnePost p), filterOut i ps))"

text \<open>A request with no query, no route parameter and no body field.\<close>

definition emptyRequest :: request where
  "emptyRequest = \<lparr>query_limit = None, params_id = None, body_title = None\<rparr>"

subsection \<open>The scenario of the id collision\<close>

text \<open>
  Three requests in a row from the initial array: \<^verbatim>\<open>POST\<close> with title \<^verbatim>\<open>Post 4\<close>,
  \<^verbatim>\<open>DELETE /api/posts/2\<close>, \<^verbatim>\<open>POST\<close> with title \<^verbatim>\<open>Post 5\<close>. Each state is the array
  the handler leaves behind.
\<close>

definition afterCreate4 :: "post list" where
  "afterCreate4 = snd (createPost (emptyRequest\<lparr>body_title := Some ''Post 4''\<rparr>) posts)"

definition afterDelete2 :: "post list" where
  "afterDelete2 = snd (deletePost (emptyRequest\<lparr>params_id := Some ''2''\<rparr>) afterCreate4)"

definition afterCreate5 :: "post list" where
  "afterCreate5 = snd (createPost (emptyRequest\<lparr>body_title := Some ''Post 5''\<rparr>) afterDelete2)"

section \<open>Properties\<close>

subsection \<open>Evaluation and search lemmas\<close>

lemmas parseInt_eval =
  parseInt_def toString_def isWhiteSpace_def isRadixDigit_def digitValue_def

lemmas numberToString_eval = showNat.simps digitChar_def

lemma afterCreate4_eval:
  "afterCreate4 =
     [\<lparr>post_id = 1, title = Some ''Post 1''\<rparr>,
      \<lparr>post_id = 2, title = Some ''Post 2''\<rparr>,
      \<lparr>post_id = 3, title = Some ''Post 3''\<rparr>,
      \<lparr>post_id = 4, title = Some ''Post 4''\<rparr>]"
  by (simp add: afterCreate4_def createPost_def emptyRequest_def posts_def Let_def)

lemma afterDelete2_eval:
  "afterDelete2 =
     [\<lparr>post_id = 1, title = Some ''Post 1''\<rparr>,
      \<lparr>post_id = 3, title = Some ''Post 3''\<rparr>,
      \<lparr>post_id = 4, title = Some ''Post 4''\<rparr>]"
  by (simp add: afterDelete2_def afterCreate4_eval deletePost_def emptyRequest_def parseInt_eval)

lemma afterCreate5_eval:
  "afterCreate5 =
     [\<lparr>post_id = 1, title = Some ''Post 1''\<rparr>,
      \<lparr>post_id = 3, title = Some ''Post 3''\<rparr>,
      \<lparr>post_id = 4, title = Some ''Post 4''\<rparr>,
      \<lparr>post_id = 4, title = Some ''Post 5''\<rparr>]"
  by (simp add: afterCreate5_def afterDelete2_eval createPost_def emptyRequest_def Let_def)

lemma findPost_Num_None_iff:
  "findPost (Num n) ps = None \<longleftrightarrow> n \<notin> post_id ` set ps"
  by (induction ps) auto

lemma findPost_NaN: "findPost NaN ps = None"
  by (induction ps) auto

lemma findPost_absent:
  "(\<forall>n. i = Num n \<longrightarrow> n \<notin> post_id ` set ps) \<Longrightarrow> findPost i ps = None"
  by (cases i) (simp_all add: findPost_NaN findPost_Num_None_iff)

text \<open>A search that succeeds splits the array at the first element with the id.\<close>

lemma findPost_split:
  "n \<in> post_id ` set ps \<Longrightarrow>
   \<exists>xs p ys. ps = xs @ p # ys \<and> post_id p = n \<and> n \<notin> post_id ` set xs \<and>
     findPost (Num n) ps = Some p"
proof (induction ps)
  case Nil
  then show ?case by simp
next
  case (Cons q qs)
  show ?case
  proof (cases "post_id q = n")
    case True
    then have "q # qs = [] @ q # qs \<and> post_id q = n \<and> n \<notin> post_id ` set [] \<and>
        findPost (Num n) (q # qs) = Some q"
      by simp
    then show ?thesis by blast
  next
    case False
    with Cons.prems have "n \<in> post_id ` set qs" by auto
    from Cons.IH [OF this] obtain xs p ys where
      h: "qs = xs @ p # ys" "post_id p = n" "n \<notin> post_id ` set xs"
         "findPost (Num n) qs = Some p"
      by blast
    with False have "q # qs = (q # xs) @ p # ys \<and> post_id p = n \<and>
        n \<notin> post_id ` set (q # xs) \<and> findPost (Num n) (q # qs) = Some p"
      by auto
    then show ?thesis by blast
  qed
qed

lemma assignTitle_split:
  "n \<notin> post_id ` set xs \<Longrightarrow> post_id p = n \<Longrightarrow>
   assignTitle (Num n) t (xs @ p # ys) = xs @ p\<lparr>title := t\<rparr> # ys"
  by (induction xs) auto

lemma filterOut_filter:
  "filterOut (Num n) ps = filter (\<lambda>p. post_id p \<noteq> n) ps"
  by (induction ps) auto

lemma length_filter_split:
  "length (filter (\<lambda>p. post_id p \<noteq> n) ps) =
   length ps - length (filter (\<lambda>p. post_id p = n) ps)"
  using sum_length_filter_compl [of "\<lambda>p. post_id p = n" ps] by simp

lemma filter_single:
  assumes "length (filter (\<lambda>p. post_id p = n) (xs @ p # ys)) = 1" and "post_id p = n"
  shows "filter (\<lambda>p. post_id p \<noteq> n) (xs @ p # ys) = xs @ ys"
proof -
  from assms have "length (filter (\<lambda>p. post_id p = n) xs) = 0"
    and "length (filter (\<lambda>p. post_id p = n) ys) = 0"
    by simp_all
  then have "\<forall>q \<in> set xs. post_id q \<noteq> n" and "\<forall>q \<in> set ys. post_id q \<noteq> n"
    by (simp_all add: filter_empty_conv)
  with assms(2) show ?thesis
    by simp
qed

subsection \<open>Creation and the id collision\<close>


text \<open>
  Claim C4. With a title that is not empty, \<^const>\<open>createPost\<close> appends one entry, whose
  title is the one given and whose id is the previous length plus one, keeps every
  earlier entry as it was, and answers 201 with the whole updated array.
\<close>

theorem createPost_appends:
  "body_title req = Some t \<and> t \<noteq> [] \<longrightarrow>
     createPost req ps =
       (Json 201 (PostList (ps @ [\<lparr>post_id = int (length ps) + 1, title = Some t\<rparr>])),
        ps @ [\<lparr>post_id = int (length ps) + 1, title = Some t\<rparr>])
     \<and> length (snd (createPost req ps)) = length ps + 1
     \<and> take (length ps) (snd (createPost req ps)) = ps
     \<and> last (snd (createPost req ps)) = \<lparr>post_id = int (length ps) + 1, title = Some t\<rparr>"
  by (simp add: createPost_def Let_def)

theorem createPost_appends_witness:
  "body_title (emptyRequest\<lparr>body_title := Some ''Post 4''\<rparr>) = Some ''Post 4''
   \<and> ''Post 4'' \<noteq> []
   \<and> createPost (emptyRequest\<lparr>body_title := Some ''Post 4''\<rparr>) posts =
       (Json 201 (PostList (posts @ [\<lparr>post_id = 4, title = Some ''Post 4''\<rparr>])),
        posts @ [\<lparr>post_id = 4, title = Some ''Post 4''\<rparr>])"
  using createPost_appends [of "emptyRequest\<lparr>body_title := Some ''Post 4''\<rparr>" "''Post 4''" posts]
  by (simp add: emptyRequest_def posts_def)

text \<open>
  Claim C5. With a title that is empty or missing, \<^const>\<open>createPost\<close> hands on an error
  of status 400 with the message \<^verbatim>\<open>Please include a title\<close> and leaves the array as it
  was. The entry built before the test (the \<open>let\<close> of the definition) is dropped.
\<close>

theorem createPost_missing_title:
  "body_title req = None \<or> body_title req = Some [] \<longrightarrow>
     createPost req ps = (Next \<lparr>message = ''Please include a title'', status = 400\<rparr>, ps)"
  by (auto simp add: createPost_def Let_def)

theorem createPost_missing_title_witness:
  "body_title emptyRequest = None
   \<and> createPost emptyRequest posts =
       (Next \<lparr>message = ''Please include a title'', status = 400\<rparr>, posts)
   \<and> body_title (emptyRequest\<lparr>body_title := Some []\<rparr>) = Some []
   \<and> createPost (emptyRequest\<lparr>body_title := Some []\<rparr>) posts =
       (Next \<lparr>message = ''Please include a title'', status = 400\<rparr>, posts)"
  using createPost_missing_title [of emptyRequest posts]
    createPost_missing_title [of "emptyRequest\<lparr>body_title := Some []\<rparr>" posts]
  by (simp add: emptyRequest_def)

subsection \<open>Listing\<close>

text \<open>
  Claim C2. When the limit parses as an integer \<open>N > 0\<close>, \<^const>\<open>getPosts\<close> answers 400
  with the first \<open>min N size\<close> entries in their order; when the limit is missing, does
  not parse, or parses as an integer that is not positive, it answers 200 with the
  whole array. The array is the same after the call in both branches.
\<close>

theorem getPosts_limit:
  "(parseInt (query_limit req) = Num N \<and> 0 < N \<longrightarrow>
      getPosts req ps = (Json 400 (PostList (take (nat N) ps)), ps)
      \<and> length (take (nat N) ps) = min (nat N) (length ps))
   \<and> (query_limit req = None \<or> parseInt (query_limit req) = NaN
        \<or> (parseInt (query_limit req) = Num N \<and> N \<le> 0) \<longrightarrow>
      getPosts req ps = (Json 200 (PostList ps), ps))"
proof (intro conjI impI)
  assume h: "parseInt (query_limit req) = Num N \<and> 0 < N"
  then have "slice0 ps (Num N) = take (nat N) ps"
    by (simp add: Let_def min_def)
  with h show "getPosts req ps = (Json 400 (PostList (take (nat N) ps)), ps)"
    by (simp add: getPosts_def)
  show "length (take (nat N) ps) = min (nat N) (length ps)"
    by (simp add: min.commute)
next
  assume h: "query_limit req = None \<or> parseInt (query_limit req) = NaN
        \<or> (parseInt (query_limit req) = Num N \<and> N \<le> 0)"
  have "parseInt None = NaN"
    by (simp add: parseInt_eval)
  with h have "parseInt (query_limit req) = NaN
      \<or> (parseInt (query_limit req) = Num N \<and> N \<le> 0)"
    by auto
  then show "getPosts req ps = (Json 200 (PostList ps), ps)"
    by (auto simp add: getPosts_def)
qed

theorem getPosts_limit_witness:
  "parseInt (Some ''2'') = Num 2
   \<and> getPosts (emptyRequest\<lparr>query_limit := Some ''2''\<rparr>) posts =
       (Json 400 (PostList [\<lparr>post_id = 1, title = Some ''Post 1''\<rparr>,
                            \<lparr>post_id = 2, title = Some ''Post 2''\<rparr>]), posts)
   \<and> parseInt (Some ''7up'') = Num 7
   \<and> getPosts (emptyRequest\<lparr>query_limit := Some ''7up''\<rparr>) posts =
       (Json 400 (PostList posts), posts)
   \<and> getPosts emptyRequest posts = (Json 200 (PostList posts), posts)
   \<and> parseInt (Some ''many'') = NaN
   \<and> getPosts (emptyRequest\<lparr>query_limit := Some ''many''\<rparr>) posts =
       (Json 200 (PostList posts), posts)
   \<and> parseInt (Some ''-1'') = Num (- 1)
   \<and> getPosts (emptyRequest\<lparr>query_limit := Some ''-1''\<rparr>) posts =
       (Json 200 (PostList posts), posts)
   \<and> parseInt (Some ''0'') = Num 0
   \<and> getPosts (emptyRequest\<lparr>query_limit := Some ''0''\<rparr>) posts =
       (Json 200 (PostList posts), posts)"
proof -
  have a: "parseInt (Some ''2'') = Num 2" "parseInt (Some ''7up'') = Num 7"
    "parseInt (Some ''many'') = NaN" "parseInt (Some ''-1'') = Num (- 1)"
    "parseInt (Some ''0'') = Num 0"
    by (simp_all add: parseInt_eval)
  show ?thesis
    using a
      getPosts_limit [of "emptyRequest\<lparr>query_limit := Some ''2''\<rparr>" 2 posts]
      getPosts_limit [of "emptyRequest\<lparr>query_limit := Some ''7up''\<rparr>" 7 posts]
      getPosts_limit [of emptyRequest 0 posts]
      getPosts_limit [of "emptyRequest\<lparr>query_limit := Some ''many''\<rparr>" 0 posts]
      getPosts_limit [of "emptyRequest\<lparr>query_limit := Some ''-1''\<rparr>" "- 1" posts]
      getPosts_limit [of "emptyRequest\<lparr>query_limit := Some ''0''\<rparr>" 0 posts]
    by (simp add: emptyRequest_def posts_def)
qed

subsection \<open>Reading one post\<close>

text \<open>
  Claim C3, as stated: for every id in the array \<^const>\<open>getPost\<close> answers with the unique
  entry of that id. In the array the collision scenario ends in, two different entries
  carry the id 4, so there is no unique entry; the handler answers with the first.
\<close>

theorem getPost_unique_counterexample:
  "getPost (emptyRequest\<lparr>params_id := Some ''4''\<rparr>) afterCreate5 =
     (Json 200 (OnePost \<lparr>post_id = 4, title = Some ''Post 4''\<rparr>), afterCreate5)
   \<and> \<lparr>post_id = 4, title = Some ''Post 5''\<rparr> \<in> set afterCreate5
   \<and> post_id \<lparr>post_id = 4, title = Some ''Post 5''\<rparr> = 4
   \<and> \<lparr>post_id = 4, title = Some ''Post 5''\<rparr> \<noteq> \<lparr>post_id = 4, title = Some ''Post 4''\<rparr>"
  by (simp add: afterCreate5_eval getPost_def emptyRequest_def parseInt_eval)

text \<open>
  Claim C3, amended. For every id in the array, \<^const>\<open>getPost\<close> answers 200 with the
  first entry of that id in array order, which is the only entry of that id when the
  ids of the array are distinct. For every id that is not in the array (a parameter
  that does not parse included), it hands on an error of status 404 with the message
  \<^verbatim>\<open>A post with the id of {id} was not found\<close>. The array is unchanged in both cases.

  The second conjunct gives the message with the digits of the id, for every id of
  magnitude below \<open>2 ^ 53\<close> and for \<^verbatim>\<open>NaN\<close>. The third covers the ids from \<open>2 ^ 53\<close> on,
  which no entry of an array with ids below \<open>2 ^ 53\<close> can carry: the status, the
  unchanged array and the words around the id are the same, and the printed form of
  the id is left open.
\<close>

theorem getPost_first_match:
  "(parseInt (params_id req) = Num n \<and> n \<in> post_id ` set ps \<longrightarrow>
      (\<exists>xs p ys. ps = xs @ p # ys \<and> post_id p = n \<and> n \<notin> post_id ` set xs
         \<and> getPost req ps = (Json 200 (OnePost p), ps)
         \<and> (distinct (map post_id ps) \<longrightarrow> (\<forall>q \<in> set ps. post_id q = n \<longrightarrow> q = p))))
   \<and> (parseInt (params_id req) = i
        \<and> (\<forall>m. i = Num m \<longrightarrow> m \<notin> post_id ` set ps \<and> \<bar>m\<bar> < 2 ^ 53) \<longrightarrow>
      getPost req ps =
        (Next \<lparr>message = ''A post with the id of '' @ numberToString i @ '' was not found'',
               status = 404\<rparr>, ps))
   \<and> (parseInt (params_id req) = Num k \<and> 2 ^ 53 \<le> \<bar>k\<bar>
        \<and> (\<forall>p \<in> set ps. \<bar>post_id p\<bar> < 2 ^ 53) \<longrightarrow>
      (\<exists>s. getPost req ps =
        (Next \<lparr>message = ''A post with the id of '' @ s @ '' was not found'',
               status = 404\<rparr>, ps)))"
proof (intro conjI impI)
  assume h: "parseInt (params_id req) = Num n \<and> n \<in> post_id ` set ps"
  then obtain xs p ys where
    s: "ps = xs @ p # ys" "post_id p = n" "n \<notin> post_id ` set xs"
       "findPost (Num n) ps = Some p"
    using findPost_split [of n ps] by blast
  from h s have g: "getPost req ps = (Json 200 (OnePost p), ps)"
    by (simp add: getPost_def)
  have u: "distinct (map post_id ps) \<longrightarrow> (\<forall>q \<in> set ps. post_id q = n \<longrightarrow> q = p)"
  proof (intro impI ballI)
    fix q
    assume d: "distinct (map post_id ps)" and q: "q \<in> set ps" and e: "post_id q = n"
    from s(1) have "p \<in> set ps" by simp
    with d q e s(2) show "q = p"
      by (metis distinct_map inj_on_def)
  qed
  from s g u show "\<exists>xs p ys. ps = xs @ p # ys \<and> post_id p = n \<and> n \<notin> post_id ` set xs
         \<and> getPost req ps = (Json 200 (OnePost p), ps)
         \<and> (distinct (map post_id ps) \<longrightarrow> (\<forall>q \<in> set ps. post_id q = n \<longrightarrow> q = p))"
    by blast
next
  assume h: "parseInt (params_id req) = i
        \<and> (\<forall>m. i = Num m \<longrightarrow> m \<notin> post_id ` set ps \<and> \<bar>m\<bar> < 2 ^ 53)"
  then have "findPost i ps = None"
    by (simp add: findPost_absent)
  with h show "getPost req ps =
        (Next \<lparr>message = ''A post with the id of '' @ numberToString i @ '' was not found'',
               status = 404\<rparr>, ps)"
    by (simp add: getPost_def)
next
  assume h: "parseInt (params_id req) = Num k \<and> 2 ^ 53 \<le> \<bar>k\<bar>
        \<and> (\<forall>p \<in> set ps. \<bar>post_id p\<bar> < 2 ^ 53)"
  then have "k \<notin> post_id ` set ps"
    by auto
  then have "findPost (Num k) ps = None"
    by (simp add: findPost_Num_None_iff)
  with h have "getPost req ps =
        (Next \<lparr>message = ''A post with the id of '' @ numberToString (Num k) @ '' was not found'',
               status = 404\<rparr>, ps)"
    by (simp add: getPost_def)
  then show "\<exists>s. getPost req ps =
        (Next \<lparr>message = ''A post with the id of '' @ s @ '' was not found'',
               status = 404\<rparr>, ps)"
    by blast
qed

theorem getPost_first_match_witness:
  "parseInt (Some ''2'') = Num 2 \<and> 2 \<in> post_id ` set posts
   \<and> distinct (map post_id posts)
   \<and> getPost (emptyRequest\<lparr>params_id := Some ''2''\<rparr>) posts =
       (Json 200 (OnePost \<lparr>post_id = 2, title = Some ''Post 2''\<rparr>), posts)
   \<and> parseInt (Some ''7'') = Num 7 \<and> 7 \<notin> post_id ` set posts \<and> \<bar>7::int\<bar> < 2 ^ 53
   \<and> getPost (emptyRequest\<lparr>params_id := Some ''7''\<rparr>) posts =
       (Next \<lparr>message = ''A post with the id of 7 was not found'', status = 404\<rparr>, posts)
   \<and> parseInt (Some ''seven'') = NaN
   \<and> getPost (emptyRequest\<lparr>params_id := Some ''seven''\<rparr>) posts =
       (Next \<lparr>message = ''A post with the id of NaN was not found'', status = 404\<rparr>, posts)
   \<and> parseInt (Some ''9007199254740993'') = Num 9007199254740993
   \<and> (2::int) ^ 53 \<le> \<bar>9007199254740993\<bar>
   \<and> (\<exists>s. getPost (emptyRequest\<lparr>params_id := Some ''9007199254740993''\<rparr>) posts =
       (Next \<lparr>message = ''A post with the id of '' @ s @ '' was not found'',
              status = 404\<rparr>, posts))"
proof -
  have a: "parseInt (Some ''2'') = Num 2" "parseInt (Some ''7'') = Num 7"
    "parseInt (Some ''seven'') = NaN"
    "parseInt (Some ''9007199254740993'') = Num 9007199254740993"
    by (simp_all add: parseInt_eval)
  have b: "numberToString (Num 7) = ''7''"
    by (simp add: numberToString_eval)
  have c: "(2::int) \<in> post_id ` set posts" "(7::int) \<notin> post_id ` set posts"
    "distinct (map post_id posts)" "\<forall>p \<in> set posts. \<bar>post_id p\<bar> < 2 ^ 53"
    by (simp_all add: posts_def)
  have d: "\<bar>7::int\<bar> < 2 ^ 53" "(2::int) ^ 53 \<le> \<bar>9007199254740993\<bar>"
    by simp_all
  have e: "getPost (emptyRequest\<lparr>params_id := Some ''2''\<rparr>) posts =
       (Json 200 (OnePost \<lparr>post_id = 2, title = Some ''Post 2''\<rparr>), posts)"
    using a c getPost_first_match [of "emptyRequest\<lparr>params_id := Some ''2''\<rparr>" 2 posts NaN 0]
    by (simp add: emptyRequest_def getPost_def posts_def)
  have f: "getPost (emptyRequest\<lparr>params_id := Some ''7''\<rparr>) posts =
       (Next \<lparr>message = ''A post with the id of 7 was not found'', status = 404\<rparr>, posts)"
    using a b c d
      getPost_first_match [of "emptyRequest\<lparr>params_id := Some ''7''\<rparr>" 0 posts "Num 7" 0]
    by (simp add: emptyRequest_def)
  have g: "getPost (emptyRequest\<lparr>params_id := Some ''seven''\<rparr>) posts =
       (Next \<lparr>message = ''A post with the id of NaN was not found'', status = 404\<rparr>, posts)"
    using a getPost_first_match [of "emptyRequest\<lparr>params_id := Some ''seven''\<rparr>" 0 posts NaN 0]
    by (simp add: emptyRequest_def)
  have h: "\<exists>s. getPost (emptyRequest\<lparr>params_id := Some ''9007199254740993''\<rparr>) posts =
       (Next \<lparr>message = ''A post with the id of '' @ s @ '' was not found'',
              status = 404\<rparr>, posts)"
    using a c d
      getPost_first_match
        [of "emptyRequest\<lparr>params_id := Some ''9007199254740993''\<rparr>" 0 posts NaN
            9007199254740993]
    by (simp add: emptyRequest_def)
  from a c d e f g h show ?thesis
    by simp
qed

subsection \<open>Updating\<close>

text \<open>
  Claim C6. For every id in the array, \<^const>\<open>updatePost\<close> changes the title of the
  entry it finds (the first of that id) and nothing else: the entries before and after
  it, every id, the length and the order stay, and the answer is 200 with the entry
  after the assignment.
\<close>

theorem updatePost_frame:
  "parseInt (params_id req) = Num n \<and> n \<in> post_id ` set ps \<longrightarrow>
     (\<exists>xs p ys. ps = xs @ p # ys \<and> post_id p = n \<and> n \<notin> post_id ` set xs
        \<and> updatePost req ps =
            (Json 200 (OnePost (p\<lparr>title := body_title req\<rparr>)),
             xs @ p\<lparr>title := body_title req\<rparr> # ys))
     \<and> map post_id (snd (updatePost req ps)) = map post_id ps
     \<and> length (snd (updatePost req ps)) = length ps"
proof
  assume h: "parseInt (params_id req) = Num n \<and> n \<in> post_id ` set ps"
  then obtain xs p ys where
    s: "ps = xs @ p # ys" "post_id p = n" "n \<notin> post_id ` set xs"
       "findPost (Num n) ps = Some p"
    using findPost_split [of n ps] by blast
  from s have "assignTitle (Num n) (body_title req) ps = xs @ p\<lparr>title := body_title req\<rparr> # ys"
    by (simp add: assignTitle_split)
  with h s have u: "updatePost req ps =
      (Json 200 (OnePost (p\<lparr>title := body_title req\<rparr>)),
       xs @ p\<lparr>title := body_title req\<rparr> # ys)"
    by (simp add: updatePost_def)
  from u s(1) have m: "map post_id (snd (updatePost req ps)) = map post_id ps"
    by simp
  from u s(1) have l: "length (snd (updatePost req ps)) = length ps"
    by simp
  from s u m l show
    "(\<exists>xs p ys. ps = xs @ p # ys \<and> post_id p = n \<and> n \<notin> post_id ` set xs
        \<and> updatePost req ps =
            (Json 200 (OnePost (p\<lparr>title := body_title req\<rparr>)),
             xs @ p\<lparr>title := body_title req\<rparr> # ys))
     \<and> map post_id (snd (updatePost req ps)) = map post_id ps
     \<and> length (snd (updatePost req ps)) = length ps"
    by blast
qed

theorem updatePost_frame_witness:
  "parseInt (params_id \<lparr>query_limit = None, params_id = Some ''2'', body_title = Some ''Second''\<rparr>)
     = Num 2
   \<and> 2 \<in> post_id ` set posts
   \<and> updatePost \<lparr>query_limit = None, params_id = Some ''2'', body_title = Some ''Second''\<rparr> posts =
       (Json 200 (OnePost \<lparr>post_id = 2, title = Some ''Second''\<rparr>),
        [\<lparr>post_id = 1, title = Some ''Post 1''\<rparr>,
         \<lparr>post_id = 2, title = Some ''Second''\<rparr>,
         \<lparr>post_id = 3, title = Some ''Post 3''\<rparr>])"
  using updatePost_frame
    [of "\<lparr>query_limit = None, params_id = Some ''2'', body_title = Some ''Second''\<rparr>" 2 posts]
  by (simp add: updatePost_def posts_def parseInt_eval)

text \<open>
  Claim C9. \<^const>\<open>updatePost\<close> does not look at the title: with an id in the array it
  answers 200 for every title, the empty and the missing one included, and stores that
  title in the entry it finds. It hands on an error exactly when no entry has the id,
  and that error is the one of the search (status 400, \<^verbatim>\<open>Post with {id} is not found\<close>,
  with the digits of the id when its magnitude is below \<open>2 ^ 53\<close>), never the one
  \<^const>\<open>createPost\<close> gives for a missing title.
\<close>

theorem updatePost_no_validation:
  "parseInt (params_id req) = i \<longrightarrow>
     ((\<exists>e. fst (updatePost (req\<lparr>body_title := t\<rparr>) ps) = Next e)
        \<longleftrightarrow> (\<forall>m. i = Num m \<longrightarrow> m \<notin> post_id ` set ps))
     \<and> (\<forall>e. fst (updatePost (req\<lparr>body_title := t\<rparr>) ps) = Next e \<longrightarrow>
          status e = 400
          \<and> (\<exists>s. message e = ''Post with '' @ s @ '' is not found'')
          \<and> message e \<noteq> ''Please include a title''
          \<and> ((\<forall>m. i = Num m \<longrightarrow> \<bar>m\<bar> < 2 ^ 53) \<longrightarrow>
               message e = ''Post with '' @ numberToString i @ '' is not found''))
     \<and> (\<forall>n. i = Num n \<and> n \<in> post_id ` set ps \<longrightarrow>
          (\<exists>xs p ys. ps = xs @ p # ys \<and> post_id p = n \<and> n \<notin> post_id ` set xs
             \<and> updatePost (req\<lparr>body_title := t\<rparr>) ps =
                 (Json 200 (OnePost (p\<lparr>title := t\<rparr>)), xs @ p\<lparr>title := t\<rparr> # ys)))"
proof
  assume h: "parseInt (params_id req) = i"
  show "((\<exists>e. fst (updatePost (req\<lparr>body_title := t\<rparr>) ps) = Next e)
        \<longleftrightarrow> (\<forall>m. i = Num m \<longrightarrow> m \<notin> post_id ` set ps))
     \<and> (\<forall>e. fst (updatePost (req\<lparr>body_title := t\<rparr>) ps) = Next e \<longrightarrow>
          status e = 400
          \<and> (\<exists>s. message e = ''Post with '' @ s @ '' is not found'')
          \<and> message e \<noteq> ''Please include a title''
          \<and> ((\<forall>m. i = Num m \<longrightarrow> \<bar>m\<bar> < 2 ^ 53) \<longrightarrow>
               message e = ''Post with '' @ numberToString i @ '' is not found''))
     \<and> (\<forall>n. i = Num n \<and> n \<in> post_id ` set ps \<longrightarrow>
          (\<exists>xs p ys. ps = xs @ p # ys \<and> post_id p = n \<and> n \<notin> post_id ` set xs
             \<and> updatePost (req\<lparr>body_title := t\<rparr>) ps =
                 (Json 200 (OnePost (p\<lparr>title := t\<rparr>)), xs @ p\<lparr>title := t\<rparr> # ys)))"
  proof (cases "\<forall>m. i = Num m \<longrightarrow> m \<notin> post_id ` set ps")
    case True
    then have "findPost i ps = None"
      by (simp add: findPost_absent)
    with h have u: "updatePost (req\<lparr>body_title := t\<rparr>) ps =
        (Next \<lparr>message = ''Post with '' @ numberToString i @ '' is not found'',
               status = 400\<rparr>, ps)"
      by (simp add: updatePost_def)
    have "\<exists>e. fst (updatePost (req\<lparr>body_title := t\<rparr>) ps) = Next e"
      using u by simp
    moreover have "\<forall>e. fst (updatePost (req\<lparr>body_title := t\<rparr>) ps) = Next e \<longrightarrow>
          status e = 400
          \<and> (\<exists>s. message e = ''Post with '' @ s @ '' is not found'')
          \<and> message e \<noteq> ''Please include a title''
          \<and> ((\<forall>m. i = Num m \<longrightarrow> \<bar>m\<bar> < 2 ^ 53) \<longrightarrow>
               message e = ''Post with '' @ numberToString i @ '' is not found'')"
      using u by auto
    moreover have "\<forall>n. i = Num n \<and> n \<in> post_id ` set ps \<longrightarrow>
          (\<exists>xs p ys. ps = xs @ p # ys \<and> post_id p = n \<and> n \<notin> post_id ` set xs
             \<and> updatePost (req\<lparr>body_title := t\<rparr>) ps =
                 (Json 200 (OnePost (p\<lparr>title := t\<rparr>)), xs @ p\<lparr>title := t\<rparr> # ys))"
      using True by blast
    ultimately show ?thesis
      using True by blast
  next
    case False
    then obtain n where n: "i = Num n" "n \<in> post_id ` set ps"
      by blast
    then obtain xs p ys where
      s: "ps = xs @ p # ys" "post_id p = n" "n \<notin> post_id ` set xs"
         "findPost (Num n) ps = Some p"
      using findPost_split [of n ps] by blast
    from s have "assignTitle (Num n) t ps = xs @ p\<lparr>title := t\<rparr> # ys"
      by (simp add: assignTitle_split)
    with h n s have u: "updatePost (req\<lparr>body_title := t\<rparr>) ps =
        (Json 200 (OnePost (p\<lparr>title := t\<rparr>)), xs @ p\<lparr>title := t\<rparr> # ys)"
      by (simp add: updatePost_def)
    from n have "\<not> (\<forall>m. i = Num m \<longrightarrow> m \<notin> post_id ` set ps)"
      by simp
    moreover from u have "\<not> (\<exists>e. fst (updatePost (req\<lparr>body_title := t\<rparr>) ps) = Next e)"
      by simp
    moreover from n s u have "\<forall>n. i = Num n \<and> n \<in> post_id ` set ps \<longrightarrow>
          (\<exists>xs p ys. ps = xs @ p # ys \<and> post_id p = n \<and> n \<notin> post_id ` set xs
             \<and> updatePost (req\<lparr>body_title := t\<rparr>) ps =
                 (Json 200 (OnePost (p\<lparr>title := t\<rparr>)), xs @ p\<lparr>title := t\<rparr> # ys))"
      by blast
    ultimately show ?thesis
      by blast
  qed
qed

theorem updatePost_no_validation_witness:
  "parseInt (params_id (emptyRequest\<lparr>params_id := Some ''2''\<rparr>)) = Num 2
   \<and> updatePost (emptyRequest\<lparr>params_id := Some ''2'', body_title := None\<rparr>) posts =
       (Json 200 (OnePost \<lparr>post_id = 2, title = None\<rparr>),
        [\<lparr>post_id = 1, title = Some ''Post 1''\<rparr>,
         \<lparr>post_id = 2, title = None\<rparr>,
         \<lparr>post_id = 3, title = Some ''Post 3''\<rparr>])
   \<and> updatePost (emptyRequest\<lparr>params_id := Some ''2'', body_title := Some []\<rparr>) posts =
       (Json 200 (OnePost \<lparr>post_id = 2, title = Some []\<rparr>),
        [\<lparr>post_id = 1, title = Some ''Post 1''\<rparr>,
         \<lparr>post_id = 2, title = Some []\<rparr>,
         \<lparr>post_id = 3, title = Some ''Post 3''\<rparr>])
   \<and> createPost (emptyRequest\<lparr>params_id := Some ''2'', body_title := Some []\<rparr>) posts =
       (Next \<lparr>message = ''Please include a title'', status = 400\<rparr>, posts)
   \<and> parseInt (params_id (emptyRequest\<lparr>params_id := Some ''12''\<rparr>)) = Num 12
   \<and> \<bar>12::int\<bar> < 2 ^ 53
   \<and> updatePost (emptyRequest\<lparr>params_id := Some ''12'', body_title := None\<rparr>) posts =
       (Next \<lparr>message = ''Post with 12 is not found'', status = 400\<rparr>, posts)"
proof -
  have a: "parseInt (params_id (emptyRequest\<lparr>params_id := Some ''2''\<rparr>)) = Num 2"
    "parseInt (params_id (emptyRequest\<lparr>params_id := Some ''12''\<rparr>)) = Num 12"
    by (simp_all add: emptyRequest_def parseInt_eval)
  have b: "numberToString (Num 12) = ''12''"
    by (simp add: numberToString_eval)
  have c: "updatePost (emptyRequest\<lparr>params_id := Some ''2'', body_title := None\<rparr>) posts =
       (Json 200 (OnePost \<lparr>post_id = 2, title = None\<rparr>),
        [\<lparr>post_id = 1, title = Some ''Post 1''\<rparr>,
         \<lparr>post_id = 2, title = None\<rparr>,
         \<lparr>post_id = 3, title = Some ''Post 3''\<rparr>])"
    using a updatePost_no_validation
      [of "emptyRequest\<lparr>params_id := Some ''2''\<rparr>" "Num 2" None posts]
    by (simp add: updatePost_def emptyRequest_def posts_def)
  have d: "updatePost (emptyRequest\<lparr>params_id := Some ''2'', body_title := Some []\<rparr>) posts =
       (Json 200 (OnePost \<lparr>post_id = 2, title = Some []\<rparr>),
        [\<lparr>post_id = 1, title = Some ''Post 1''\<rparr>,
         \<lparr>post_id = 2, title = Some []\<rparr>,
         \<lparr>post_id = 3, title = Some ''Post 3''\<rparr>])"
    using a updatePost_no_validation
      [of "emptyRequest\<lparr>params_id := Some ''2''\<rparr>" "Num 2" "Some []" posts]
    by (simp add: updatePost_def emptyRequest_def posts_def)
  have e: "createPost (emptyRequest\<lparr>params_id := Some ''2'', body_title := Some []\<rparr>) posts =
       (Next \<lparr>message = ''Please include a title'', status = 400\<rparr>, posts)"
    by (simp add: createPost_def emptyRequest_def Let_def)
  have f: "updatePost (emptyRequest\<lparr>params_id := Some ''12'', body_title := None\<rparr>) posts =
       (Next \<lparr>message = ''Post with 12 is not found'', status = 400\<rparr>, posts)"
    using a updatePost_no_validation
      [of "emptyRequest\<lparr>params_id := Some ''12''\<rparr>" "Num 12" None posts]
    by (simp add: updatePost_def emptyRequest_def posts_def b del: numberToString.simps)
  have g: "\<bar>12::int\<bar> < 2 ^ 53"
    by simp
  from a c d e f g show ?thesis
    by blast
qed

subsection \<open>Ids that are not in the array\<close>

text \<open>
  Claim C8. For every id that is not in the array (a parameter that does not parse
  included), \<^const>\<open>updatePost\<close> and \<^const>\<open>deletePost\<close> each hand on an error of status
  400 with the message \<^verbatim>\<open>Post with {id} is not found\<close>, and the array is unchanged.

  The first conjunct gives the message with the digits of the id, for every id of
  magnitude below \<open>2 ^ 53\<close> and for \<^verbatim>\<open>NaN\<close>. The second covers the ids from \<open>2 ^ 53\<close> on,
  with the same status, array and words around the id, and leaves the printed form of
  the id open.
\<close>

theorem update_delete_not_found:
  "(parseInt (params_id req) = i
      \<and> (\<forall>m. i = Num m \<longrightarrow> m \<notin> post_id ` set ps \<and> \<bar>m\<bar> < 2 ^ 53) \<longrightarrow>
     updatePost req ps =
       (Next \<lparr>message = ''Post with '' @ numberToString i @ '' is not found'',
              status = 400\<rparr>, ps)
     \<and> deletePost req ps =
       (Next \<lparr>message = ''Post with '' @ numberToString i @ '' is not found'',
              status = 400\<rparr>, ps))
   \<and> (parseInt (params_id req) = Num k \<and> 2 ^ 53 \<le> \<bar>k\<bar>
        \<and> (\<forall>p \<in> set ps. \<bar>post_id p\<bar> < 2 ^ 53) \<longrightarrow>
     (\<exists>s. updatePost req ps =
            (Next \<lparr>message = ''Post with '' @ s @ '' is not found'', status = 400\<rparr>, ps)
        \<and> deletePost req ps =
            (Next \<lparr>message = ''Post with '' @ s @ '' is not found'', status = 400\<rparr>, ps)))"
proof (intro conjI impI)
  assume h: "parseInt (params_id req) = i
      \<and> (\<forall>m. i = Num m \<longrightarrow> m \<notin> post_id ` set ps \<and> \<bar>m\<bar> < 2 ^ 53)"
  then have f: "findPost i ps = None"
    by (simp add: findPost_absent)
  from h f show "updatePost req ps =
       (Next \<lparr>message = ''Post with '' @ numberToString i @ '' is not found'',
              status = 400\<rparr>, ps)"
    by (simp add: updatePost_def)
  from h f show "deletePost req ps =
       (Next \<lparr>message = ''Post with '' @ numberToString i @ '' is not found'',
              status = 400\<rparr>, ps)"
    by (simp add: deletePost_def)
next
  assume h: "parseInt (params_id req) = Num k \<and> 2 ^ 53 \<le> \<bar>k\<bar>
        \<and> (\<forall>p \<in> set ps. \<bar>post_id p\<bar> < 2 ^ 53)"
  then have "k \<notin> post_id ` set ps"
    by auto
  then have "findPost (Num k) ps = None"
    by (simp add: findPost_Num_None_iff)
  with h have "updatePost req ps =
       (Next \<lparr>message = ''Post with '' @ numberToString (Num k) @ '' is not found'',
              status = 400\<rparr>, ps)
     \<and> deletePost req ps =
       (Next \<lparr>message = ''Post with '' @ numberToString (Num k) @ '' is not found'',
              status = 400\<rparr>, ps)"
    by (simp add: updatePost_def deletePost_def)
  then show "\<exists>s. updatePost req ps =
            (Next \<lparr>message = ''Post with '' @ s @ '' is not found'', status = 400\<rparr>, ps)
        \<and> deletePost req ps =
            (Next \<lparr>message = ''Post with '' @ s @ '' is not found'', status = 400\<rparr>, ps)"
    by blast
qed

theorem update_delete_not_found_witness:
  "parseInt (Some ''12'') = Num 12 \<and> 12 \<notin> post_id ` set posts \<and> \<bar>12::int\<bar> < 2 ^ 53
   \<and> updatePost \<lparr>query_limit = None, params_id = Some ''12'', body_title = Some ''Twelve''\<rparr> posts =
       (Next \<lparr>message = ''Post with 12 is not found'', status = 400\<rparr>, posts)
   \<and> deletePost \<lparr>query_limit = None, params_id = Some ''12'', body_title = Some ''Twelve''\<rparr> posts =
       (Next \<lparr>message = ''Post with 12 is not found'', status = 400\<rparr>, posts)
   \<and> parseInt (Some ''x'') = NaN
   \<and> updatePost \<lparr>query_limit = None, params_id = Some ''x'', body_title = Some ''Twelve''\<rparr> posts =
       (Next \<lparr>message = ''Post with NaN is not found'', status = 400\<rparr>, posts)
   \<and> parseInt (Some ''-2'') = Num (- 2) \<and> - 2 \<notin> post_id ` set posts \<and> \<bar>- 2::int\<bar> < 2 ^ 53
   \<and> deletePost \<lparr>query_limit = None, params_id = Some ''-2'', body_title = None\<rparr> posts =
       (Next \<lparr>message = ''Post with -2 is not found'', status = 400\<rparr>, posts)
   \<and> parseInt (Some ''9007199254740993'') = Num 9007199254740993
   \<and> (2::int) ^ 53 \<le> \<bar>9007199254740993\<bar>
   \<and> (\<exists>s. updatePost \<lparr>query_limit = None, params_id = Some ''9007199254740993'',
                       body_title = None\<rparr> posts =
            (Next \<lparr>message = ''Post with '' @ s @ '' is not found'', status = 400\<rparr>, posts)
        \<and> deletePost \<lparr>query_limit = None, params_id = Some ''9007199254740993'',
                       body_title = None\<rparr> posts =
            (Next \<lparr>message = ''Post with '' @ s @ '' is not found'', status = 400\<rparr>, posts))"
proof -
  have a: "parseInt (Some ''12'') = Num 12" "parseInt (Some ''x'') = NaN"
    "parseInt (Some ''-2'') = Num (- 2)"
    "parseInt (Some ''9007199254740993'') = Num 9007199254740993"
    by (simp_all add: parseInt_eval)
  have b: "numberToString (Num 12) = ''12''" "numberToString (Num (- 2)) = ''-2''"
    by (simp_all add: numberToString_eval)
  have c: "(12::int) \<notin> post_id ` set posts" "(- 2::int) \<notin> post_id ` set posts"
    "\<forall>p \<in> set posts. \<bar>post_id p\<bar> < 2 ^ 53"
    by (simp_all add: posts_def)
  have d: "\<bar>12::int\<bar> < 2 ^ 53" "\<bar>- 2::int\<bar> < 2 ^ 53" "(2::int) ^ 53 \<le> \<bar>9007199254740993\<bar>"
    by simp_all
  show ?thesis
    using a b c d
      update_delete_not_found
        [of "\<lparr>query_limit = None, params_id = Some ''12'', body_title = Some ''Twelve''\<rparr>"
            "Num 12" posts 0]
      update_delete_not_found
        [of "\<lparr>query_limit = None, params_id = Some ''x'', body_title = Some ''Twelve''\<rparr>"
            NaN posts 0]
      update_delete_not_found
        [of "\<lparr>query_limit = None, params_id = Some ''-2'', body_title = None\<rparr>"
            "Num (- 2)" posts 0]
      update_delete_not_found
        [of "\<lparr>query_limit = None, params_id = Some ''9007199254740993'', body_title = None\<rparr>"
            NaN posts 9007199254740993]
    by simp
qed

subsection \<open>Deleting\<close>

text \<open>
  Claim C7, as stated: for every id in the array \<^const>\<open>deletePost\<close> makes the array
  shorter by exactly one. In the array the collision scenario ends in, deleting id 4
  takes a list of four entries to a list of two.
\<close>

theorem deletePost_removes_all_counterexample:
  "length afterCreate5 = 4
   \<and> deletePost (emptyRequest\<lparr>params_id := Some ''4''\<rparr>) afterCreate5 =
       (Json 200 (OnePost \<lparr>post_id = 4, title = Some ''Post 4''\<rparr>),
        [\<lparr>post_id = 1, title = Some ''Post 1''\<rparr>,
         \<lparr>post_id = 3, title = Some ''Post 3''\<rparr>])"
  by (simp add: afterCreate5_eval deletePost_def emptyRequest_def parseInt_eval)

text \<open>
  Claim C7, amended. For every id that exactly one entry of the array carries,
  \<^const>\<open>deletePost\<close> makes the array shorter by exactly one, removes that entry and no
  other, keeps the remaining entries in their order, and answers 200 with the removed
  entry as it was.
\<close>

theorem deletePost_single:
  "parseInt (params_id req) = Num n \<and> length (filter (\<lambda>p. post_id p = n) ps) = 1 \<longrightarrow>
     (\<exists>xs p ys. ps = xs @ p # ys \<and> post_id p = n
        \<and> n \<notin> post_id ` set xs \<and> n \<notin> post_id ` set ys
        \<and> deletePost req ps = (Json 200 (OnePost p), xs @ ys))
     \<and> length (snd (deletePost req ps)) + 1 = length ps"
proof
  assume h: "parseInt (params_id req) = Num n \<and> length (filter (\<lambda>p. post_id p = n) ps) = 1"
  then have "filter (\<lambda>p. post_id p = n) ps \<noteq> []"
    by auto
  then have "n \<in> post_id ` set ps"
    by (auto simp add: filter_empty_conv)
  then obtain xs p ys where
    s: "ps = xs @ p # ys" "post_id p = n" "n \<notin> post_id ` set xs"
       "findPost (Num n) ps = Some p"
    using findPost_split [of n ps] by blast
  from h s have f: "filter (\<lambda>p. post_id p \<noteq> n) ps = xs @ ys"
    using filter_single [of n xs p ys] by simp
  from h s have "length (filter (\<lambda>p. post_id p = n) ys) = 0"
    by simp
  then have y: "n \<notin> post_id ` set ys"
    by (auto simp add: filter_empty_conv)
  from h s f have d: "deletePost req ps = (Json 200 (OnePost p), xs @ ys)"
    by (simp add: deletePost_def filterOut_filter)
  from d s(1) have l: "length (snd (deletePost req ps)) + 1 = length ps"
    by simp
  from s y d l show
    "(\<exists>xs p ys. ps = xs @ p # ys \<and> post_id p = n
        \<and> n \<notin> post_id ` set xs \<and> n \<notin> post_id ` set ys
        \<and> deletePost req ps = (Json 200 (OnePost p), xs @ ys))
     \<and> length (snd (deletePost req ps)) + 1 = length ps"
    by blast
qed

theorem deletePost_single_witness:
  "parseInt (params_id (emptyRequest\<lparr>params_id := Some ''2''\<rparr>)) = Num 2
   \<and> length (filter (\<lambda>p. post_id p = 2) afterCreate4) = 1
   \<and> deletePost (emptyRequest\<lparr>params_id := Some ''2''\<rparr>) afterCreate4 =
       (Json 200 (OnePost \<lparr>post_id = 2, title = Some ''Post 2''\<rparr>),
        [\<lparr>post_id = 1, title = Some ''Post 1''\<rparr>,
         \<lparr>post_id = 3, title = Some ''Post 3''\<rparr>,
         \<lparr>post_id = 4, title = Some ''Post 4''\<rparr>])
   \<and> length (snd (deletePost (emptyRequest\<lparr>params_id := Some ''2''\<rparr>) afterCreate4)) + 1
       = length afterCreate4"
  using deletePost_single [of "emptyRequest\<lparr>params_id := Some ''2''\<rparr>" 2 afterCreate4]
  by (simp add: afterCreate4_eval deletePost_def emptyRequest_def parseInt_eval)

text \<open>
  Claim C10. \<^const>\<open>deletePost\<close> removes every entry of the given id: the array after
  the call is the array before it without the entries of that id, its length drops by
  their number, and the answer carries only the first of them. The array the collision
  scenario ends in has two entries of id 4.
\<close>

theorem deletePost_removes_every_match:
  "parseInt (params_id req) = Num n \<and> n \<in> post_id ` set ps \<longrightarrow>
     snd (deletePost req ps) = filter (\<lambda>p. post_id p \<noteq> n) ps
     \<and> length (snd (deletePost req ps)) =
         length ps - length (filter (\<lambda>p. post_id p = n) ps)
     \<and> (\<exists>xs p ys. ps = xs @ p # ys \<and> post_id p = n \<and> n \<notin> post_id ` set xs
          \<and> fst (deletePost req ps) = Json 200 (OnePost p))"
proof
  assume h: "parseInt (params_id req) = Num n \<and> n \<in> post_id ` set ps"
  then obtain xs p ys where
    s: "ps = xs @ p # ys" "post_id p = n" "n \<notin> post_id ` set xs"
       "findPost (Num n) ps = Some p"
    using findPost_split [of n ps] by blast
  from h s have d: "deletePost req ps = (Json 200 (OnePost p), filter (\<lambda>p. post_id p \<noteq> n) ps)"
    by (simp add: deletePost_def filterOut_filter)
  then have a: "snd (deletePost req ps) = filter (\<lambda>p. post_id p \<noteq> n) ps"
    by simp
  then have b: "length (snd (deletePost req ps)) =
         length ps - length (filter (\<lambda>p. post_id p = n) ps)"
    by (simp add: length_filter_split)
  from d have c: "fst (deletePost req ps) = Json 200 (OnePost p)"
    by simp
  from s a b c show "snd (deletePost req ps) = filter (\<lambda>p. post_id p \<noteq> n) ps
     \<and> length (snd (deletePost req ps)) =
         length ps - length (filter (\<lambda>p. post_id p = n) ps)
     \<and> (\<exists>xs p ys. ps = xs @ p # ys \<and> post_id p = n \<and> n \<notin> post_id ` set xs
          \<and> fst (deletePost req ps) = Json 200 (OnePost p))"
    by blast
qed

theorem deletePost_removes_every_match_witness:
  "parseInt (params_id (emptyRequest\<lparr>params_id := Some ''4''\<rparr>)) = Num 4
   \<and> 4 \<in> post_id ` set afterCreate5
   \<and> length (filter (\<lambda>p. post_id p = 4) afterCreate5) = 2
   \<and> length afterCreate5 = 4
   \<and> length (snd (deletePost (emptyRequest\<lparr>params_id := Some ''4''\<rparr>) afterCreate5)) = 2
   \<and> snd (deletePost (emptyRequest\<lparr>params_id := Some ''4''\<rparr>) afterCreate5) =
       [\<lparr>post_id = 1, title = Some ''Post 1''\<rparr>, \<lparr>post_id = 3, title = Some ''Post 3''\<rparr>]
   \<and> fst (deletePost (emptyRequest\<lparr>params_id := Some ''4''\<rparr>) afterCreate5) =
       Json 200 (OnePost \<lparr>post_id = 4, title = Some ''Post 4''\<rparr>)"
  using deletePost_removes_every_match [of "emptyRequest\<lparr>params_id := Some ''4''\<rparr>" 4 afterCreate5]
  by (simp add: afterCreate5_eval deletePost_def emptyRequest_def parseInt_eval)

end
